theory Spec2Isabelle
  imports Main "HOL-Library.Word"
begin

section \<open>The Netlify site resource (netlify/resource_site.go)\<close>

text \<open>
  The file holds the four lifecycle functions of the \<^verbatim>\<open>netlify_site\<close> resource
  (\<^verbatim>\<open>resourceSiteCreate\<close>, \<^verbatim>\<open>resourceSiteRead\<close>, \<^verbatim>\<open>resourceSiteUpdate\<close>,
  \<^verbatim>\<open>resourceSiteDelete\<close>) and the payload builder \<^verbatim>\<open>resourceSite_setupStruct\<close>.
  The Go functions mutate the resource data \<^verbatim>\<open>d\<close> in place and talk to the Netlify API
  through \<^verbatim>\<open>meta.Netlify.Operations\<close>; the model passes the resource data and the
  remote side explicitly and returns both.
\<close>

subsection \<open>Integers\<close>

text \<open>
  \<^verbatim>\<open>installation_id\<close> is a \<^verbatim>\<open>schema.TypeInt\<close> (a Go \<^verbatim>\<open>int\<close>), the API model's
  \<^verbatim>\<open>InstallationID\<close> an \<^verbatim>\<open>int64\<close>, a status code an \<^verbatim>\<open>int\<close>. Go's \<^verbatim>\<open>int\<close> is taken
  at its 64-bit width, where the conversion \<^verbatim>\<open>int64(x)\<close> keeps every bit.
\<close>

type_synonym go_int = "64 word"
type_synonym int64 = "64 word"

definition int64 :: "go_int \<Rightarrow> int64" where
  "int64 x = scast x"

definition go_int :: "int64 \<Rightarrow> go_int" where
  "go_int x = scast x"

subsection \<open>API models (models.RepoInfo, models.Site, models.SiteSetup)\<close>

text \<open>
  Of the API's \<^verbatim>\<open>models.Site\<close> only the fields this file reads or writes are kept; a
  pointer field (\<^verbatim>\<open>BuildSettings\<close>, \<^verbatim>\<open>Repo\<close>) is an option, \<^verbatim>\<open>nil\<close> being \<open>None\<close>.
  A field a composite literal does not mention has Go's zero value.
\<close>

record RepoInfo =
  Cmd :: string
  DeployKeyID :: string
  Dir :: string
  Provider :: string
  RepoPath :: string
  RepoBranch :: string
  InstallationID :: int64

record Site =
  ID :: string
  Name :: string
  CustomDomain :: string
  DeployURL :: string
  AccountSlug :: string
  AccountName :: string
  BuildSettings :: "RepoInfo option"

record SiteSetup =
  Site :: Site
  Repo :: "RepoInfo option"

subsection \<open>Resource data (the schema of resourceSite)\<close>

text \<open>
  The schema fixes the shape of \<^verbatim>\<open>d\<close>: five string attributes and \<^verbatim>\<open>repo\<close>, a list
  (\<^verbatim>\<open>MaxItems: 1\<close>) of blocks with six string fields and the integer
  \<^verbatim>\<open>installation_id\<close>. \<^verbatim>\<open>d.Get\<close> gives an attribute's value, the zero value when it
  is not set; \<^verbatim>\<open>d.Set\<close> replaces it, and \<^verbatim>\<open>d.Set("repo", nil)\<close> leaves the empty
  list. \<^verbatim>\<open>d.Id()\<close> and \<^verbatim>\<open>d.SetId\<close> read and write the identifier.
\<close>

record repo_block =
  command :: string
  deploy_key_id :: string
  dir :: string
  provider :: string
  repo_path :: string
  repo_branch :: string
  installation_id :: go_int

record ResourceData =
  Id' :: string
  name :: string
  custom_domain :: string
  deploy_url :: string
  account_slug :: string
  account_name :: string
  repo :: "repo_block list"

text \<open>
  \<^verbatim>\<open>d.GetOk(key)\<close> returns the value and whether it is set to something other than
  the zero value of its type: the empty string for a string attribute, the empty list
  for a list attribute.
\<close>

definition GetOk_string :: "string \<Rightarrow> string \<times> bool" where
  "GetOk_string v = (v, v \<noteq> [])"

definition GetOk_list :: "'a list \<Rightarrow> 'a list \<times> bool" where
  "GetOk_list v = (v, v \<noteq> [])"

subsection \<open>Errors and the API client\<close>

text \<open>
  An \<^verbatim>\<open>error\<close> of the client is either a \<^verbatim>\<open>*operations.GetSiteDefault\<close>, which
  carries a status code, or anything else. A Go function's \<^verbatim>\<open>error\<close> result is an
  \<open>error option\<close>, \<^verbatim>\<open>nil\<close> being \<open>None\<close>.
\<close>

datatype error = GetSiteDefault go_int string | OtherError string

text \<open>
  The five operations the file calls. Each takes its parameters and the authentication
  context, acts on the remote side (of an arbitrary type \<open>'r\<close>) and returns either an
  error or the site of the response's payload.
\<close>

record ('r, 'a) Operations =
  CreateSiteInTeam :: "string \<Rightarrow> SiteSetup \<Rightarrow> 'a \<Rightarrow> 'r \<Rightarrow> (error + Site) \<times> 'r"
  CreateSite :: "SiteSetup \<Rightarrow> 'a \<Rightarrow> 'r \<Rightarrow> (error + Site) \<times> 'r"
  GetSite :: "string \<Rightarrow> 'a \<Rightarrow> 'r \<Rightarrow> (error + Site) \<times> 'r"
  UpdateSite :: "string \<Rightarrow> SiteSetup \<Rightarrow> 'a \<Rightarrow> 'r \<Rightarrow> (error + Site) \<times> 'r"
  DeleteSite :: "string \<Rightarrow> 'a \<Rightarrow> 'r \<Rightarrow> (error + unit) \<times> 'r"

record ('r, 'a) Meta =
  Netlify :: "('r, 'a) Operations"
  AuthInfo :: 'a

text \<open>
  The remote side together with the list of the calls made so far, oldest first, so
  that the number and the order of the calls of an operation can be stated.
\<close>

datatype call =
    CreateSiteInTeamCall string SiteSetup
  | CreateSiteCall SiteSetup
  | GetSiteCall string
  | UpdateSiteCall string SiteSetup
  | DeleteSiteCall string

record 'r world =
  remote :: 'r
  calls :: "call list"

definition invoke :: "call \<Rightarrow> ('r \<Rightarrow> 'x \<times> 'r) \<Rightarrow> 'r world \<Rightarrow> 'x \<times> 'r world" where
  "invoke c f w =
     (case f (remote w) of (x, r') \<Rightarrow> (x, \<lparr>remote = r', calls = calls w @ [c]\<rparr>))"

subsection \<open>resourceSite_setupStruct\<close>

text \<open>
  \<^verbatim>\<open>vL[0]\<close> is read only when \<^verbatim>\<open>GetOk\<close> reported a non-empty list, so the index is
  in range.
\<close>

definition resourceSite_setupStruct :: "ResourceData \<Rightarrow> SiteSetup" where
  "resourceSite_setupStruct d =
     (let result = \<lparr>Site = \<lparr>ID = [], Name = name d, CustomDomain = custom_domain d,
                             DeployURL = [], AccountSlug = [], AccountName = [],
                             BuildSettings = None\<rparr>,
                    Repo = None\<rparr>
      in case GetOk_list (repo d) of
           (vL, ok) \<Rightarrow>
             if ok then
               (let repo = vL ! 0
                in result\<lparr>Repo := Some \<lparr>Cmd = command repo,
                                         DeployKeyID = deploy_key_id repo,
                                         Dir = dir repo,
                                         Provider = provider repo,
                                         RepoPath = repo_path repo,
                                         RepoBranch = repo_branch repo,
                                         InstallationID = int64 (installation_id repo)\<rparr>\<rparr>)
             else result)"

subsection \<open>resourceSiteRead\<close>

definition resourceSiteRead ::
  "('r, 'a) Meta \<Rightarrow> ResourceData \<Rightarrow> 'r world \<Rightarrow> (error option \<times> ResourceData) \<times> 'r world" where
  "resourceSiteRead meta d w =
     (case invoke (GetSiteCall (Id' d)) (GetSite (Netlify meta) (Id' d) (AuthInfo meta)) w of
        (Inl err, w') \<Rightarrow>
          if (case err of GetSiteDefault code _ \<Rightarrow> code = 404 | OtherError _ \<Rightarrow> False)
          then ((None, d\<lparr>Id' := []\<rparr>), w')
          else ((Some err, d), w')
      | (Inr site, w') \<Rightarrow>
          (let d = d\<lparr>name := Name site\<rparr>;
               d = d\<lparr>custom_domain := CustomDomain site\<rparr>;
               d = d\<lparr>deploy_url := DeployURL site\<rparr>;
               d = d\<lparr>account_slug := AccountSlug site\<rparr>;
               d = d\<lparr>account_name := AccountName site\<rparr>;
               d = d\<lparr>repo := []\<rparr>;
               d = (case BuildSettings site of
                      None \<Rightarrow> d
                    | Some bs \<Rightarrow>
                        if RepoPath bs \<noteq> [] then
                          d\<lparr>repo := [\<lparr>command = Cmd bs,
                                       deploy_key_id = DeployKeyID bs,
                                       dir = Dir bs,
                                       provider = Provider bs,
                                       repo_path = RepoPath bs,
                                       repo_branch = RepoBranch bs,
                                       installation_id = go_int (InstallationID bs)\<rparr>]\<rparr>
                        else d)
           in ((None, d), w')))"

subsection \<open>resourceSiteCreate\<close>

definition resourceSiteCreate ::
  "('r, 'a) Meta \<Rightarrow> ResourceData \<Rightarrow> 'r world \<Rightarrow> (error option \<times> ResourceData) \<times> 'r world" where
  "resourceSiteCreate meta d w =
     (case GetOk_string (account_slug d) of
        (v, ok) \<Rightarrow>
          if ok then
            (let params_Site = resourceSite_setupStruct d
             in case invoke (CreateSiteInTeamCall v params_Site)
                       (CreateSiteInTeam (Netlify meta) v params_Site (AuthInfo meta)) w of
                  (Inl err, w') \<Rightarrow> ((Some err, d), w')
                | (Inr site, w') \<Rightarrow> resourceSiteRead meta (d\<lparr>Id' := ID site\<rparr>) w')
          else
            (let params_Site = resourceSite_setupStruct d
             in case invoke (CreateSiteCall params_Site)
                       (CreateSite (Netlify meta) params_Site (AuthInfo meta)) w of
                  (Inl err, w') \<Rightarrow> ((Some err, d), w')
                | (Inr site, w') \<Rightarrow> resourceSiteRead meta (d\<lparr>Id' := ID site\<rparr>) w'))"

subsection \<open>resourceSiteUpdate and resourceSiteDelete\<close>

definition resourceSiteUpdate ::
  "('r, 'a) Meta \<Rightarrow> ResourceData \<Rightarrow> 'r world \<Rightarrow> (error option \<times> ResourceData) \<times> 'r world" where
  "resourceSiteUpdate meta d w =
     (let params_Site = resourceSite_setupStruct d;
          params_SiteID = Id' d
      in case invoke (UpdateSiteCall params_SiteID params_Site)
                (UpdateSite (Netlify meta) params_SiteID params_Site (AuthInfo meta)) w of
           (Inl err, w') \<Rightarrow> ((Some err, d), w')
         | (Inr _, w') \<Rightarrow> resourceSiteRead meta d w')"

definition resourceSiteDelete ::
  "('r, 'a) Meta \<Rightarrow> ResourceData \<Rightarrow> 'r world \<Rightarrow> (error option \<times> ResourceData) \<times> 'r world" where
  "resourceSiteDelete meta d w =
     (case invoke (DeleteSiteCall (Id' d)) (DeleteSite (Netlify meta) (Id' d) (AuthInfo meta)) w of
        (Inl err, w') \<Rightarrow> ((Some err, d), w')
      | (Inr _, w') \<Rightarrow> ((None, d), w'))"

subsection \<open>Classifying calls\<close>

fun is_creation :: "call \<Rightarrow> bool" where
  "is_creation (CreateSiteInTeamCall _ _) = True"
| "is_creation (CreateSiteCall _) = True"
| "is_creation _ = False"

fun payload_of :: "call \<Rightarrow> SiteSetup option" where
  "payload_of (CreateSiteInTeamCall _ p) = Some p"
| "payload_of (CreateSiteCall p) = Some p"
| "payload_of (UpdateSiteCall _ p) = Some p"
| "payload_of _ = None"

subsection \<open>Sample data and a canned client\<close>

text \<open>
  A client whose answers are fixed in advance: one answer for the three mutating calls
  that return a site, one for get-site and one for delete-site. Its remote side is a
  counter of the requests served.
\<close>

definition canned :: "(error + Site) \<Rightarrow> (error + Site) \<Rightarrow> (error + unit) \<Rightarrow> (nat, unit) Meta" where
  "canned mutated fetched deleted =
     \<lparr>Netlify = \<lparr>CreateSiteInTeam = (\<lambda>_ _ _ r. (mutated, Suc r)),
                  CreateSite = (\<lambda>_ _ r. (mutated, Suc r)),
                  GetSite = (\<lambda>_ _ r. (fetched, Suc r)),
                  UpdateSite = (\<lambda>_ _ _ r. (mutated, Suc r)),
                  DeleteSite = (\<lambda>_ _ r. (deleted, Suc r))\<rparr>,
      AuthInfo = ()\<rparr>"

definition fresh :: "nat world" where
  "fresh = \<lparr>remote = 0, calls = []\<rparr>"

definition gitlab_repo :: repo_block where
  "gitlab_repo = \<lparr>command = ''npm run build'', deploy_key_id = ''key1'', dir = ''web'',
                   provider = ''gitlab'', repo_path = ''grp/proj'', repo_branch = ''dev'',
                   installation_id = 42\<rparr>"

definition team_site :: ResourceData where
  "team_site = \<lparr>Id' = ''s1'', name = ''site1'', custom_domain = ''example.org'',
                 deploy_url = ''https://site1.netlify.app'', account_slug = ''team-x'',
                 account_name = ''Team X'', repo = [gitlab_repo]\<rparr>"

definition plain_site :: ResourceData where
  "plain_site = \<lparr>Id' = ''s2'', name = ''site2'', custom_domain = [],
                  deploy_url = [], account_slug = [], account_name = [], repo = []\<rparr>"

definition remote_site :: Site where
  "remote_site = \<lparr>ID = ''s9'', Name = ''served'', CustomDomain = ''served.example.org'',
                   DeployURL = ''https://served.netlify.app'', AccountSlug = ''team-y'',
                   AccountName = ''Team Y'',
                   BuildSettings = Some \<lparr>Cmd = ''make'', DeployKeyID = ''key9'', Dir = ''out'',
                                          Provider = ''github'', RepoPath = [],
                                          RepoBranch = ''main'', InstallationID = 7\<rparr>\<rparr>"

definition new_team_site :: ResourceData where
  "new_team_site = team_site\<lparr>Id' := []\<rparr>"

definition new_plain_site :: ResourceData where
  "new_plain_site = plain_site\<lparr>Id' := []\<rparr>"

definition unavailable :: error where
  "unavailable = OtherError ''503 Service Unavailable''"

definition not_found :: error where
  "not_found = GetSiteDefault 404 ''Not Found''"

definition all_up :: "(nat, unit) Meta" where
  "all_up = canned (Inr remote_site) (Inr remote_site) (Inr ())"

definition all_down :: "(nat, unit) Meta" where
  "all_down = canned (Inl unavailable) (Inl unavailable) (Inl unavailable)"

definition reads_down :: "(nat, unit) Meta" where
  "reads_down = canned (Inr remote_site) (Inl unavailable) (Inr ())"

definition reads_gone :: "(nat, unit) Meta" where
  "reads_gone = canned (Inr remote_site) (Inl not_found) (Inr ())"

section \<open>Running one call\<close>

text \<open>
  What each function does once the answer of the client to its call is known.
\<close>

lemma int64_id: "int64 x = x"
  by (simp add: int64_def)

lemma go_int_id: "go_int x = x"
  by (simp add: go_int_def)

lemma invoke_result:
  "f (remote w) = (x, r') \<Longrightarrow> invoke c f w = (x, \<lparr>remote = r', calls = calls w @ [c]\<rparr>)"
  by (simp add: invoke_def)

lemma read_gone:
  assumes "GetSite (Netlify meta) (Id' d) (AuthInfo meta) (remote w) = (Inl (GetSiteDefault 404 msg), r')"
  shows "resourceSiteRead meta d w =
           ((None, d\<lparr>Id' := []\<rparr>), \<lparr>remote = r', calls = calls w @ [GetSiteCall (Id' d)]\<rparr>)"
  using assms by (simp add: resourceSiteRead_def invoke_def)

lemma read_fail:
  assumes "GetSite (Netlify meta) (Id' d) (AuthInfo meta) (remote w) = (Inl e, r')"
    and "\<forall>msg. e \<noteq> GetSiteDefault 404 msg"
  shows "resourceSiteRead meta d w =
           ((Some e, d), \<lparr>remote = r', calls = calls w @ [GetSiteCall (Id' d)]\<rparr>)"
  using assms by (cases e) (simp_all add: resourceSiteRead_def invoke_def)

lemma read_ok:
  assumes "GetSite (Netlify meta) (Id' d) (AuthInfo meta) (remote w) = (Inr site, r')"
  shows "resourceSiteRead meta d w =
           ((None, \<lparr>Id' = Id' d, name = Name site, custom_domain = CustomDomain site,
                    deploy_url = DeployURL site, account_slug = AccountSlug site,
                    account_name = AccountName site,
                    repo = (case BuildSettings site of
          None \<Rightarrow> []
        | Some bs \<Rightarrow>
            if RepoPath bs \<noteq> [] then
              [\<lparr>command = Cmd bs, deploy_key_id = DeployKeyID bs, dir = Dir bs,
                provider = Provider bs, repo_path = RepoPath bs,
                repo_branch = RepoBranch bs, installation_id = go_int (InstallationID bs)\<rparr>]
            else [])\<rparr>),
            \<lparr>remote = r', calls = calls w @ [GetSiteCall (Id' d)]\<rparr>)"
  using assms by (simp add: resourceSiteRead_def invoke_def Let_def split: option.split)

lemma read_calls: "calls (snd (resourceSiteRead meta d w)) = calls w @ [GetSiteCall (Id' d)]"
  by (simp add: resourceSiteRead_def invoke_def Let_def split: prod.split sum.split error.split)

lemma create_team_fail:
  assumes "account_slug d \<noteq> []"
    and "CreateSiteInTeam (Netlify meta) (account_slug d) (resourceSite_setupStruct d) (AuthInfo meta) (remote w) = (Inl e, r')"
  shows "resourceSiteCreate meta d w =
           ((Some e, d), \<lparr>remote = r', calls = calls w @ [CreateSiteInTeamCall (account_slug d) (resourceSite_setupStruct d)]\<rparr>)"
  using assms by (simp add: resourceSiteCreate_def GetOk_string_def invoke_def)

lemma create_team_ok:
  assumes "account_slug d \<noteq> []"
    and "CreateSiteInTeam (Netlify meta) (account_slug d) (resourceSite_setupStruct d) (AuthInfo meta) (remote w) = (Inr site, r')"
  shows "resourceSiteCreate meta d w =
           resourceSiteRead meta (d\<lparr>Id' := ID site\<rparr>)
             \<lparr>remote = r', calls = calls w @ [CreateSiteInTeamCall (account_slug d) (resourceSite_setupStruct d)]\<rparr>"
  using assms by (simp add: resourceSiteCreate_def GetOk_string_def invoke_def)

lemma create_default_fail:
  assumes "account_slug d = []"
    and "CreateSite (Netlify meta) (resourceSite_setupStruct d) (AuthInfo meta) (remote w) = (Inl e, r')"
  shows "resourceSiteCreate meta d w =
           ((Some e, d), \<lparr>remote = r', calls = calls w @ [CreateSiteCall (resourceSite_setupStruct d)]\<rparr>)"
  using assms by (simp add: resourceSiteCreate_def GetOk_string_def invoke_def)

lemma create_default_ok:
  assumes "account_slug d = []"
    and "CreateSite (Netlify meta) (resourceSite_setupStruct d) (AuthInfo meta) (remote w) = (Inr site, r')"
  shows "resourceSiteCreate meta d w =
           resourceSiteRead meta (d\<lparr>Id' := ID site\<rparr>)
             \<lparr>remote = r', calls = calls w @ [CreateSiteCall (resourceSite_setupStruct d)]\<rparr>"
  using assms by (simp add: resourceSiteCreate_def GetOk_string_def invoke_def)

lemma update_fail:
  assumes "UpdateSite (Netlify meta) (Id' d) (resourceSite_setupStruct d) (AuthInfo meta) (remote w) = (Inl e, r')"
  shows "resourceSiteUpdate meta d w =
           ((Some e, d), \<lparr>remote = r', calls = calls w @ [UpdateSiteCall (Id' d) (resourceSite_setupStruct d)]\<rparr>)"
  using assms by (simp add: resourceSiteUpdate_def invoke_def)

lemma update_ok:
  assumes "UpdateSite (Netlify meta) (Id' d) (resourceSite_setupStruct d) (AuthInfo meta) (remote w) = (Inr site, r')"
  shows "resourceSiteUpdate meta d w =
           resourceSiteRead meta d
             \<lparr>remote = r', calls = calls w @ [UpdateSiteCall (Id' d) (resourceSite_setupStruct d)]\<rparr>"
  using assms by (simp add: resourceSiteUpdate_def invoke_def)

lemma delete_fail:
  assumes "DeleteSite (Netlify meta) (Id' d) (AuthInfo meta) (remote w) = (Inl e, r')"
  shows "resourceSiteDelete meta d w =
           ((Some e, d), \<lparr>remote = r', calls = calls w @ [DeleteSiteCall (Id' d)]\<rparr>)"
  using assms by (simp add: resourceSiteDelete_def invoke_def)

lemma update_calls:
  "calls (snd (resourceSiteUpdate meta d w)) =
     calls w @ UpdateSiteCall (Id' d) (resourceSite_setupStruct d) #
       (case fst (UpdateSite (Netlify meta) (Id' d) (resourceSite_setupStruct d) (AuthInfo meta) (remote w)) of
          Inl _ \<Rightarrow> []
        | Inr _ \<Rightarrow> [GetSiteCall (Id' d)])"
  by (simp add: resourceSiteUpdate_def invoke_def read_calls Let_def split: prod.split sum.split)

lemma create_first_call:
  "calls (snd (resourceSiteCreate meta d w)) ! length (calls w) =
     (if account_slug d \<noteq> [] then CreateSiteInTeamCall (account_slug d) (resourceSite_setupStruct d)
      else CreateSiteCall (resourceSite_setupStruct d))"
  by (simp add: resourceSiteCreate_def GetOk_string_def invoke_def read_calls Let_def
           nth_append split: prod.split sum.split)

section \<open>The setup payload\<close>

text \<open>
  C1 (as amended). When the \<^verbatim>\<open>repo\<close> attribute is present, the payload built by
  \<^verbatim>\<open>resourceSite_setupStruct\<close> has a repo object whose six writable fields
  (command, deploy_key_id, dir, provider, repo_path, repo_branch) are those of the first
  \<^verbatim>\<open>repo\<close> block, and whose \<^verbatim>\<open>InstallationID\<close> is the block's \<^verbatim>\<open>installation_id\<close>:
  the builder copies it into the payload, it does not leave it out.
\<close>

theorem setupStruct_repo_fields:
  "repo d \<noteq> [] \<Longrightarrow>
   Repo (resourceSite_setupStruct d) =
     Some \<lparr>Cmd = command (repo d ! 0), DeployKeyID = deploy_key_id (repo d ! 0),
           Dir = dir (repo d ! 0), Provider = provider (repo d ! 0),
           RepoPath = repo_path (repo d ! 0), RepoBranch = repo_branch (repo d ! 0),
           InstallationID = installation_id (repo d ! 0)\<rparr>"
  by (simp add: resourceSite_setupStruct_def GetOk_list_def Let_def int64_id)

text \<open>The theorem at a site whose \<^verbatim>\<open>repo\<close> block holds installation_id 42.\<close>

theorem setupStruct_repo_fields_witness:
  "repo team_site \<noteq> [] \<and>
   Repo (resourceSite_setupStruct team_site) =
     Some \<lparr>Cmd = ''npm run build'', DeployKeyID = ''key1'', Dir = ''web'',
           Provider = ''gitlab'', RepoPath = ''grp/proj'', RepoBranch = ''dev'',
           InstallationID = 42\<rparr>"
  using setupStruct_repo_fields [of team_site]
  by (simp add: team_site_def gitlab_repo_def)

text \<open>
  The payload of that site carries installation_id 42: the field is populated, and by
  a value other than the zero value.
\<close>

theorem setupStruct_sends_installation_id:
  "repo team_site \<noteq> [] \<and>
   map_option InstallationID (Repo (resourceSite_setupStruct team_site)) = Some 42 \<and>
   map_option InstallationID (Repo (resourceSite_setupStruct team_site)) \<noteq> Some 0"
  by (simp add: resourceSite_setupStruct_def GetOk_list_def Let_def int64_id
        team_site_def gitlab_repo_def)

text \<open>
  C5. When the \<^verbatim>\<open>repo\<close> attribute is absent, the payload built by
  \<^verbatim>\<open>resourceSite_setupStruct\<close> has no repo object: its \<^verbatim>\<open>Repo\<close> field is nil, not an
  empty repo object.
\<close>

theorem setupStruct_no_repo:
  "repo d = [] \<Longrightarrow> Repo (resourceSite_setupStruct d) = None"
  by (simp add: resourceSite_setupStruct_def GetOk_list_def Let_def)

text \<open>The theorem at a site declared without a \<^verbatim>\<open>repo\<close> block.\<close>

theorem setupStruct_no_repo_witness:
  "repo plain_site = [] \<and> Repo (resourceSite_setupStruct plain_site) = None"
  using setupStruct_no_repo [of plain_site] by (simp add: plain_site_def)

section \<open>Create\<close>

text \<open>
  C2. Whatever the client answers, \<^verbatim>\<open>resourceSiteCreate\<close> makes exactly one creation
  call: \<^verbatim>\<open>CreateSiteInTeam\<close> with the declared \<^verbatim>\<open>account_slug\<close> and the setup payload
  when \<^verbatim>\<open>account_slug\<close> is non-empty, \<^verbatim>\<open>CreateSite\<close> with the setup payload
  otherwise. Among the calls of the operation no other creation call occurs, so neither
  variant is a fallback for the other.
\<close>

theorem create_one_creation_call:
  "filter is_creation (calls (snd (resourceSiteCreate meta d w))) =
     filter is_creation (calls w) @
       [if account_slug d \<noteq> [] then CreateSiteInTeamCall (account_slug d) (resourceSite_setupStruct d)
        else CreateSiteCall (resourceSite_setupStruct d)]"
  by (simp add: resourceSiteCreate_def GetOk_string_def invoke_def read_calls Let_def
           split: prod.split sum.split)

text \<open>
  The theorem at a site with a team, where the creation succeeds, and at a site without
  one, where it fails.
\<close>

theorem create_one_creation_call_witness:
  "filter is_creation
     (calls (snd (resourceSiteCreate (canned (Inr remote_site) (Inr remote_site) (Inr ())) team_site fresh))) =
     [CreateSiteInTeamCall ''team-x'' (resourceSite_setupStruct team_site)] \<and>
   filter is_creation
     (calls (snd (resourceSiteCreate (canned (Inl unavailable) (Inl unavailable) (Inr ())) plain_site fresh))) =
     [CreateSiteCall (resourceSite_setupStruct plain_site)]"
proof -
  have t: "account_slug team_site = ''team-x''" and p: "account_slug plain_site = []"
    by (simp_all add: team_site_def plain_site_def)
  show ?thesis
    using create_one_creation_call [of "canned (Inr remote_site) (Inr remote_site) (Inr ())" team_site fresh]
      create_one_creation_call [of "canned (Inl unavailable) (Inl unavailable) (Inr ())" plain_site fresh]
    by (simp add: t p fresh_def)
qed

text \<open>
  C9. When the creation call fails, whichever of the two variants it is,
  \<^verbatim>\<open>resourceSiteCreate\<close> returns that error and leaves the resource data as it was: no
  identifier is assigned. The creation call is the only call it makes, so no read is
  performed.
\<close>

theorem create_atomic_on_failure:
  assumes "(account_slug d \<noteq> [] \<and>
            CreateSiteInTeam (Netlify meta) (account_slug d) (resourceSite_setupStruct d) (AuthInfo meta) (remote w) = (Inl e, r1)) \<or>
           (account_slug d = [] \<and>
            CreateSite (Netlify meta) (resourceSite_setupStruct d) (AuthInfo meta) (remote w) = (Inl e, r1))"
  shows "fst (fst (resourceSiteCreate meta d w)) = Some e \<and>
         snd (fst (resourceSiteCreate meta d w)) = d \<and>
         Id' (snd (fst (resourceSiteCreate meta d w))) = Id' d \<and>
         remote (snd (resourceSiteCreate meta d w)) = r1 \<and>
         calls (snd (resourceSiteCreate meta d w)) =
           calls w @
             [if account_slug d \<noteq> [] then CreateSiteInTeamCall (account_slug d) (resourceSite_setupStruct d)
              else CreateSiteCall (resourceSite_setupStruct d)] \<and>
         (\<forall>i. GetSiteCall i \<notin> set (drop (length (calls w)) (calls (snd (resourceSiteCreate meta d w)))))"
  using assms by (auto simp add: create_team_fail create_default_fail)

text \<open>
  The theorem at a declared site with a team and a client where every call fails.
\<close>

theorem create_atomic_on_failure_witness:
  "account_slug new_team_site \<noteq> [] \<and>
   CreateSiteInTeam (Netlify all_down) (account_slug new_team_site)
     (resourceSite_setupStruct new_team_site) (AuthInfo all_down) (remote fresh) = (Inl unavailable, Suc 0) \<and>
   fst (resourceSiteCreate all_down new_team_site fresh) = (Some unavailable, new_team_site) \<and>
   Id' (snd (fst (resourceSiteCreate all_down new_team_site fresh))) = [] \<and>
   calls (snd (resourceSiteCreate all_down new_team_site fresh)) =
     [CreateSiteInTeamCall ''team-x'' (resourceSite_setupStruct new_team_site)]"
proof -
  have s: "account_slug new_team_site = ''team-x''" and i: "Id' new_team_site = []"
    by (simp_all add: new_team_site_def team_site_def)
  have c: "CreateSiteInTeam (Netlify all_down) (account_slug new_team_site)
     (resourceSite_setupStruct new_team_site) (AuthInfo all_down) (remote fresh) = (Inl unavailable, Suc 0)"
    by (simp add: all_down_def canned_def fresh_def)
  have f: "calls fresh = []"
    by (simp add: fresh_def)
  show ?thesis
    using s c i f create_atomic_on_failure [of new_team_site all_down fresh unavailable "Suc 0"]
    by (simp add: prod_eq_iff)
qed

text \<open>
  C10. When the creation call succeeds and the read that follows gets a
  \<^verbatim>\<open>GetSiteDefault\<close> of status 404, \<^verbatim>\<open>resourceSiteCreate\<close> returns no error and the
  identifier it had just assigned is the empty string again: a successful create whose
  resource data has no ID.
\<close>

theorem create_then_not_found:
  assumes "(account_slug d \<noteq> [] \<and>
            CreateSiteInTeam (Netlify meta) (account_slug d) (resourceSite_setupStruct d) (AuthInfo meta) (remote w) = (Inr site, r1)) \<or>
           (account_slug d = [] \<and>
            CreateSite (Netlify meta) (resourceSite_setupStruct d) (AuthInfo meta) (remote w) = (Inr site, r1))"
    and "GetSite (Netlify meta) (ID site) (AuthInfo meta) r1 = (Inl (GetSiteDefault 404 msg), r2)"
  shows "fst (fst (resourceSiteCreate meta d w)) = None \<and>
         Id' (snd (fst (resourceSiteCreate meta d w))) = [] \<and>
         snd (fst (resourceSiteCreate meta d w)) = d\<lparr>Id' := []\<rparr>"
  using assms by (auto simp add: create_team_ok create_default_ok read_gone)

text \<open>
  The theorem at a declared site without a team and a client that creates the site and
  then answers 404 to get-site.
\<close>

theorem create_then_not_found_witness:
  "account_slug new_plain_site = [] \<and>
   CreateSite (Netlify reads_gone) (resourceSite_setupStruct new_plain_site) (AuthInfo reads_gone)
     (remote fresh) = (Inr remote_site, Suc 0) \<and>
   GetSite (Netlify reads_gone) (ID remote_site) (AuthInfo reads_gone) (Suc 0) =
     (Inl (GetSiteDefault 404 ''Not Found''), Suc (Suc 0)) \<and>
   fst (resourceSiteCreate reads_gone new_plain_site fresh) = (None, new_plain_site)"
proof -
  have s: "account_slug new_plain_site = []" and i: "new_plain_site\<lparr>Id' := []\<rparr> = new_plain_site"
    by (simp_all add: new_plain_site_def plain_site_def)
  have c: "CreateSite (Netlify reads_gone) (resourceSite_setupStruct new_plain_site) (AuthInfo reads_gone)
     (remote fresh) = (Inr remote_site, Suc 0)"
    by (simp add: reads_gone_def canned_def fresh_def)
  have g: "GetSite (Netlify reads_gone) (ID remote_site) (AuthInfo reads_gone) (Suc 0) =
     (Inl (GetSiteDefault 404 ''Not Found''), Suc (Suc 0))"
    by (simp add: reads_gone_def canned_def not_found_def)
  show ?thesis
    using s c g i
      create_then_not_found [of new_plain_site reads_gone fresh remote_site "Suc 0" "''Not Found''" "Suc (Suc 0)"]
    by (simp add: prod_eq_iff)
qed

section \<open>Read\<close>

text \<open>
  C3. When get-site fails with a \<^verbatim>\<open>GetSiteDefault\<close> of status 404,
  \<^verbatim>\<open>resourceSiteRead\<close> returns no error and sets the identifier to the empty string,
  leaving every other attribute as it was.
\<close>

theorem read_not_found_clears_id:
  assumes "GetSite (Netlify meta) (Id' d) (AuthInfo meta) (remote w) = (Inl (GetSiteDefault 404 msg), r')"
  shows "fst (fst (resourceSiteRead meta d w)) = None \<and>
         Id' (snd (fst (resourceSiteRead meta d w))) = [] \<and>
         snd (fst (resourceSiteRead meta d w)) = d\<lparr>Id' := []\<rparr>"
  by (simp add: read_gone [OF assms])

text \<open>The theorem at a client whose get-site answers 404.\<close>

theorem read_not_found_clears_id_witness:
  "GetSite (Netlify (canned (Inr remote_site) (Inl not_found) (Inr ()))) (Id' team_site)
     (AuthInfo (canned (Inr remote_site) (Inl not_found) (Inr ()))) (remote fresh) =
     (Inl (GetSiteDefault 404 ''Not Found''), Suc 0) \<and>
   fst (fst (resourceSiteRead (canned (Inr remote_site) (Inl not_found) (Inr ())) team_site fresh)) = None \<and>
   Id' (snd (fst (resourceSiteRead (canned (Inr remote_site) (Inl not_found) (Inr ())) team_site fresh))) = [] \<and>
   snd (fst (resourceSiteRead (canned (Inr remote_site) (Inl not_found) (Inr ())) team_site fresh)) =
     team_site\<lparr>Id' := []\<rparr>"
proof -
  have h: "GetSite (Netlify (canned (Inr remote_site) (Inl not_found) (Inr ()))) (Id' team_site)
     (AuthInfo (canned (Inr remote_site) (Inl not_found) (Inr ()))) (remote fresh) =
     (Inl (GetSiteDefault 404 ''Not Found''), Suc 0)"
    by (simp add: canned_def not_found_def fresh_def)
  show ?thesis
    using h read_not_found_clears_id [OF h] by simp
qed

text \<open>
  C4. After a successful get-site, the \<^verbatim>\<open>repo\<close> attribute holds the fields of the
  remote build settings if and only if the build settings are present and their
  \<^verbatim>\<open>RepoPath\<close> is non-empty; in every other case \<^verbatim>\<open>repo\<close> is the empty list,
  whatever it held before.
\<close>

theorem read_repo_iff_build_settings:
  assumes "GetSite (Netlify meta) (Id' d) (AuthInfo meta) (remote w) = (Inr site, r')"
  shows "repo (snd (fst (resourceSiteRead meta d w))) =
           (case BuildSettings site of
              None \<Rightarrow> []
            | Some bs \<Rightarrow>
                if RepoPath bs \<noteq> [] then
                  [\<lparr>command = Cmd bs, deploy_key_id = DeployKeyID bs, dir = Dir bs,
                    provider = Provider bs, repo_path = RepoPath bs,
                    repo_branch = RepoBranch bs, installation_id = InstallationID bs\<rparr>]
                else []) \<and>
         (repo (snd (fst (resourceSiteRead meta d w))) \<noteq> [] \<longleftrightarrow>
            (\<exists>bs. BuildSettings site = Some bs \<and> RepoPath bs \<noteq> []))"
  by (simp add: read_ok [OF assms] go_int_id split: option.split)

text \<open>
  The theorem at a site that had a \<^verbatim>\<open>repo\<close> block, read from a remote site whose build
  settings are present with an empty \<^verbatim>\<open>RepoPath\<close>: the block is gone.
\<close>

theorem read_repo_iff_build_settings_witness:
  "GetSite (Netlify (canned (Inr remote_site) (Inr remote_site) (Inr ()))) (Id' team_site)
     (AuthInfo (canned (Inr remote_site) (Inr remote_site) (Inr ()))) (remote fresh) =
     (Inr remote_site, Suc 0) \<and>
   repo team_site \<noteq> [] \<and>
   BuildSettings remote_site \<noteq> None \<and>
   repo (snd (fst (resourceSiteRead (canned (Inr remote_site) (Inr remote_site) (Inr ())) team_site fresh))) = []"
proof -
  have h: "GetSite (Netlify (canned (Inr remote_site) (Inr remote_site) (Inr ()))) (Id' team_site)
     (AuthInfo (canned (Inr remote_site) (Inr remote_site) (Inr ()))) (remote fresh) =
     (Inr remote_site, Suc 0)"
    by (simp add: canned_def fresh_def)
  have b: "BuildSettings remote_site \<noteq> None" "RepoPath (the (BuildSettings remote_site)) = []"
    by (simp_all add: remote_site_def)
  have r: "repo team_site \<noteq> []"
    by (simp add: team_site_def)
  show ?thesis
    using h b r read_repo_iff_build_settings [OF h] by auto
qed

text \<open>
  C8 (as amended). \<^verbatim>\<open>resourceSiteRead\<close> is idempotent: if a read is followed by a second
  read that gets the same answer from get-site (a site, a 404 or any other error), the
  second read returns the same error result and the same resource data as the first.
  How far the result depends on the resource data the read started from is set by the
  answer. After a site was fetched there is no error and the resource data is the old
  identifier together with attributes computed from the fetched site alone, with no
  trace of the old attribute values. After a 404 there is no error, the identifier is
  empty and every attribute keeps its old value. After any other error that error is
  returned and the resource data is left as it was.
\<close>

theorem read_idempotent:
  assumes "resourceSiteRead meta d w = ((e1, d1), w1)"
    and "fst (GetSite (Netlify meta) (Id' d1) (AuthInfo meta) (remote w1)) =
         fst (GetSite (Netlify meta) (Id' d) (AuthInfo meta) (remote w))"
  shows "fst (resourceSiteRead meta d1 w1) = (e1, d1) \<and>
         (\<forall>site. fst (GetSite (Netlify meta) (Id' d) (AuthInfo meta) (remote w)) = Inr site \<longrightarrow>
            e1 = None \<and>
            d1 = \<lparr>Id' = Id' d, name = Name site, custom_domain = CustomDomain site,
                  deploy_url = DeployURL site, account_slug = AccountSlug site,
                  account_name = AccountName site,
                  repo = (case BuildSettings site of
                            None \<Rightarrow> []
                          | Some bs \<Rightarrow>
                              if RepoPath bs \<noteq> [] then
                                [\<lparr>command = Cmd bs, deploy_key_id = DeployKeyID bs, dir = Dir bs,
                                  provider = Provider bs, repo_path = RepoPath bs,
                                  repo_branch = RepoBranch bs,
                                  installation_id = InstallationID bs\<rparr>]
                              else [])\<rparr>) \<and>
         (\<forall>msg. fst (GetSite (Netlify meta) (Id' d) (AuthInfo meta) (remote w)) =
                  Inl (GetSiteDefault 404 msg) \<longrightarrow>
            e1 = None \<and> d1 = d\<lparr>Id' := []\<rparr>) \<and>
         (\<forall>e. fst (GetSite (Netlify meta) (Id' d) (AuthInfo meta) (remote w)) = Inl e \<longrightarrow>
              (\<forall>msg. e \<noteq> GetSiteDefault 404 msg) \<longrightarrow>
            e1 = Some e \<and> d1 = d)"
proof -
  obtain resp r1 where g1: "GetSite (Netlify meta) (Id' d) (AuthInfo meta) (remote w) = (resp, r1)"
    by (cases "GetSite (Netlify meta) (Id' d) (AuthInfo meta) (remote w)")
  obtain r2 where g2: "GetSite (Netlify meta) (Id' d1) (AuthInfo meta) (remote w1) = (resp, r2)"
    using assms(2) g1 by (cases "GetSite (Netlify meta) (Id' d1) (AuthInfo meta) (remote w1)") simp
  show ?thesis
  proof (cases resp)
    case (Inr site)
    have "d1 = snd (fst (resourceSiteRead meta d w))"
      by (simp add: assms(1))
    then have d1: "d1 = \<lparr>Id' = Id' d, name = Name site, custom_domain = CustomDomain site,
                  deploy_url = DeployURL site, account_slug = AccountSlug site,
                  account_name = AccountName site,
                  repo = (case BuildSettings site of
                            None \<Rightarrow> []
                          | Some bs \<Rightarrow>
                              if RepoPath bs \<noteq> [] then
                                [\<lparr>command = Cmd bs, deploy_key_id = DeployKeyID bs, dir = Dir bs,
                                  provider = Provider bs, repo_path = RepoPath bs,
                                  repo_branch = RepoBranch bs,
                                  installation_id = InstallationID bs\<rparr>]
                              else [])\<rparr>"
      using g1 Inr by (simp add: read_ok go_int_id split: option.split)
    have e1: "e1 = None"
      using assms(1) g1 Inr by (simp add: read_ok)
    have "fst (resourceSiteRead meta d1 w1) = (None, d1)"
      using g2 Inr by (simp add: read_ok go_int_id d1 split: option.split)
    then show ?thesis
      using g1 Inr d1 e1 by simp
  next
    case (Inl e)
    show ?thesis
    proof (cases "\<exists>msg. e = GetSiteDefault 404 msg")
      case True
      then obtain msg where m: "e = GetSiteDefault 404 msg" ..
      have r: "e1 = None" "d1 = d\<lparr>Id' := []\<rparr>"
        using assms(1) g1 Inl m by (simp_all add: read_gone)
      have "fst (resourceSiteRead meta d1 w1) = (None, d1)"
        using g2 Inl m by (simp add: read_gone) (simp add: r)
      then show ?thesis
        using g1 Inl r m by simp
    next
      case False
      then have n: "\<forall>msg. e \<noteq> GetSiteDefault 404 msg"
        by simp
      have r: "e1 = Some e" "d1 = d"
        using assms(1) g1 Inl n by (simp_all add: read_fail)
      have "fst (resourceSiteRead meta d1 w1) = (Some e, d1)"
        using g2 Inl n by (simp add: read_fail)
      then show ?thesis
        using g1 Inl r n by simp
    qed
  qed
qed

text \<open>
  The theorem at a tracked site with a \<^verbatim>\<open>repo\<close> block, read twice from a client that
  serves the same remote site both times.
\<close>

theorem read_idempotent_witness:
  "resourceSiteRead all_up team_site fresh =
     ((None, \<lparr>Id' = ''s1'', name = ''served'', custom_domain = ''served.example.org'',
               deploy_url = ''https://served.netlify.app'', account_slug = ''team-y'',
               account_name = ''Team Y'', repo = []\<rparr>),
      \<lparr>remote = Suc 0, calls = [GetSiteCall ''s1'']\<rparr>) \<and>
   fst (resourceSiteRead all_up
         \<lparr>Id' = ''s1'', name = ''served'', custom_domain = ''served.example.org'',
           deploy_url = ''https://served.netlify.app'', account_slug = ''team-y'',
           account_name = ''Team Y'', repo = []\<rparr>
         \<lparr>remote = Suc 0, calls = [GetSiteCall ''s1'']\<rparr>) =
     (None, \<lparr>Id' = ''s1'', name = ''served'', custom_domain = ''served.example.org'',
              deploy_url = ''https://served.netlify.app'', account_slug = ''team-y'',
              account_name = ''Team Y'', repo = []\<rparr>)"
proof -
  have g: "GetSite (Netlify all_up) s a r = (Inr remote_site, Suc r)" for s a r
    by (simp add: all_up_def canned_def)
  have r: "resourceSiteRead all_up team_site fresh =
     ((None, \<lparr>Id' = ''s1'', name = ''served'', custom_domain = ''served.example.org'',
               deploy_url = ''https://served.netlify.app'', account_slug = ''team-y'',
               account_name = ''Team Y'', repo = []\<rparr>),
      \<lparr>remote = Suc 0, calls = [GetSiteCall ''s1'']\<rparr>)"
    by (simp add: read_ok [OF g] remote_site_def team_site_def fresh_def)
  have h: "fst (GetSite (Netlify all_up)
                 (Id' \<lparr>Id' = ''s1'', name = ''served'', custom_domain = ''served.example.org'',
                        deploy_url = ''https://served.netlify.app'', account_slug = ''team-y'',
                        account_name = ''Team Y'', repo = []\<rparr>)
                 (AuthInfo all_up) (remote \<lparr>remote = Suc 0, calls = [GetSiteCall ''s1'']\<rparr>)) =
           fst (GetSite (Netlify all_up) (Id' team_site) (AuthInfo all_up) (remote fresh))"
    by (simp add: g)
  from read_idempotent [OF r h]
  have "fst (resourceSiteRead all_up
         \<lparr>Id' = ''s1'', name = ''served'', custom_domain = ''served.example.org'',
           deploy_url = ''https://served.netlify.app'', account_slug = ''team-y'',
           account_name = ''Team Y'', repo = []\<rparr>
         \<lparr>remote = Suc 0, calls = [GetSiteCall ''s1'']\<rparr>) =
     (None, \<lparr>Id' = ''s1'', name = ''served'', custom_domain = ''served.example.org'',
              deploy_url = ''https://served.netlify.app'', account_slug = ''team-y'',
              account_name = ''Team Y'', repo = []\<rparr>)"
    by (rule conjunct1)
  with r show ?thesis
    by (rule conjI)
qed

text \<open>
  Two tracked sites with the same identifier that differ in \<^verbatim>\<open>name\<close>, read from a
  client whose get-site answers 404 to both: the two reads end in different resource
  data, each keeping the name it started with. So after a 404 the result does depend on
  the old attribute values, not on the answer alone.
\<close>

theorem read_not_found_keeps_prior_attributes:
  "Id' (team_site\<lparr>name := ''renamed''\<rparr>) = Id' team_site \<and>
   GetSite (Netlify reads_gone) (Id' team_site) (AuthInfo reads_gone) (remote fresh) =
     (Inl (GetSiteDefault 404 ''Not Found''), Suc 0) \<and>
   GetSite (Netlify reads_gone) (Id' (team_site\<lparr>name := ''renamed''\<rparr>)) (AuthInfo reads_gone)
     (remote fresh) =
     (Inl (GetSiteDefault 404 ''Not Found''), Suc 0) \<and>
   name (snd (fst (resourceSiteRead reads_gone team_site fresh))) = ''site1'' \<and>
   name (snd (fst (resourceSiteRead reads_gone (team_site\<lparr>name := ''renamed''\<rparr>) fresh))) =
     ''renamed'' \<and>
   snd (fst (resourceSiteRead reads_gone team_site fresh)) \<noteq>
     snd (fst (resourceSiteRead reads_gone (team_site\<lparr>name := ''renamed''\<rparr>) fresh))"
  by (simp add: resourceSiteRead_def invoke_def reads_gone_def canned_def not_found_def
        team_site_def fresh_def)

section \<open>Update\<close>

text \<open>
  C6. \<^verbatim>\<open>resourceSiteUpdate\<close> sends the payload that \<^verbatim>\<open>resourceSiteCreate\<close> sends for
  the same resource data, the one built by \<^verbatim>\<open>resourceSite_setupStruct\<close>. It makes
  exactly one \<^verbatim>\<open>UpdateSite\<close> call, for the identifier of the site, and never a
  team-scoped call, whatever \<^verbatim>\<open>account_slug\<close> is; when that call succeeds it goes on as
  \<^verbatim>\<open>resourceSiteRead\<close> does, which makes the one get-site call, and when it fails it
  makes no other call.
\<close>

theorem update_same_payload_one_call_then_read:
  "payload_of (calls (snd (resourceSiteUpdate meta d w)) ! length (calls w)) =
     payload_of (calls (snd (resourceSiteCreate meta d w)) ! length (calls w)) \<and>
   payload_of (calls (snd (resourceSiteUpdate meta d w)) ! length (calls w)) =
     Some (resourceSite_setupStruct d) \<and>
   calls (snd (resourceSiteUpdate meta d w)) =
     calls w @ UpdateSiteCall (Id' d) (resourceSite_setupStruct d) #
       (case fst (UpdateSite (Netlify meta) (Id' d) (resourceSite_setupStruct d) (AuthInfo meta) (remote w)) of
          Inl _ \<Rightarrow> []
        | Inr _ \<Rightarrow> [GetSiteCall (Id' d)]) \<and>
   (UpdateSite (Netlify meta) (Id' d) (resourceSite_setupStruct d) (AuthInfo meta) (remote w) = (Inr site, r') \<longrightarrow>
      resourceSiteUpdate meta d w =
        resourceSiteRead meta d
          \<lparr>remote = r', calls = calls w @ [UpdateSiteCall (Id' d) (resourceSite_setupStruct d)]\<rparr>)"
proof -
  have u: "calls (snd (resourceSiteUpdate meta d w)) ! length (calls w) =
             UpdateSiteCall (Id' d) (resourceSite_setupStruct d)"
    by (simp add: update_calls)
  have c: "payload_of (calls (snd (resourceSiteCreate meta d w)) ! length (calls w)) =
             Some (resourceSite_setupStruct d)"
    by (simp add: create_first_call)
  show ?thesis
    using update_ok [of meta d w site r'] by (simp add: u c update_calls)
qed

text \<open>
  The theorem at a tracked site with a team and a client where every call succeeds.
\<close>

theorem update_same_payload_one_call_then_read_witness:
  "UpdateSite (Netlify (canned (Inr remote_site) (Inr remote_site) (Inr ()))) (Id' team_site)
     (resourceSite_setupStruct team_site)
     (AuthInfo (canned (Inr remote_site) (Inr remote_site) (Inr ()))) (remote fresh) =
     (Inr remote_site, Suc 0) \<and>
   account_slug team_site \<noteq> [] \<and>
   calls (snd (resourceSiteUpdate (canned (Inr remote_site) (Inr remote_site) (Inr ())) team_site fresh)) =
     [UpdateSiteCall ''s1'' (resourceSite_setupStruct team_site), GetSiteCall ''s1''] \<and>
   resourceSiteUpdate (canned (Inr remote_site) (Inr remote_site) (Inr ())) team_site fresh =
     resourceSiteRead (canned (Inr remote_site) (Inr remote_site) (Inr ())) team_site
       \<lparr>remote = Suc 0, calls = [UpdateSiteCall ''s1'' (resourceSite_setupStruct team_site)]\<rparr>"
proof -
  have h: "UpdateSite (Netlify (canned (Inr remote_site) (Inr remote_site) (Inr ()))) (Id' team_site)
     (resourceSite_setupStruct team_site)
     (AuthInfo (canned (Inr remote_site) (Inr remote_site) (Inr ()))) (remote fresh) =
     (Inr remote_site, Suc 0)"
    by (simp add: canned_def fresh_def)
  have i: "Id' team_site = ''s1''" "account_slug team_site \<noteq> []" "calls fresh = []" "remote fresh = 0"
    by (simp_all add: team_site_def fresh_def)
  show ?thesis
    using h i update_same_payload_one_call_then_read
      [of "canned (Inr remote_site) (Inr remote_site) (Inr ())" team_site fresh remote_site "Suc 0"]
    by (simp add: read_calls)
qed

section \<open>Failures of the client\<close>

text \<open>
  C7. In each of the four operations a failure of the client other than the 404 of
  get-site is returned as it is, and the operation stops there: the calls made are
  listed in full, so nothing is retried and nothing is undone. This holds for the
  creation call (both variants), the update call, the delete call and get-site, and also
  for the read that follows a successful create or update: its error is returned
  although the remote change has been made, and after a create the new identifier
  stays assigned.
\<close>

theorem failures_propagated_unmodified:
  "(account_slug d \<noteq> [] \<longrightarrow>
    CreateSiteInTeam (Netlify meta) (account_slug d) (resourceSite_setupStruct d) (AuthInfo meta) (remote w) = (Inl e, r1) \<longrightarrow>
      resourceSiteCreate meta d w =
        ((Some e, d),
         \<lparr>remote = r1, calls = calls w @ [CreateSiteInTeamCall (account_slug d) (resourceSite_setupStruct d)]\<rparr>)) \<and>
   (account_slug d = [] \<longrightarrow>
    CreateSite (Netlify meta) (resourceSite_setupStruct d) (AuthInfo meta) (remote w) = (Inl e, r1) \<longrightarrow>
      resourceSiteCreate meta d w =
        ((Some e, d), \<lparr>remote = r1, calls = calls w @ [CreateSiteCall (resourceSite_setupStruct d)]\<rparr>)) \<and>
   (GetSite (Netlify meta) (Id' d) (AuthInfo meta) (remote w) = (Inl e, r1) \<longrightarrow>
    (\<forall>msg. e \<noteq> GetSiteDefault 404 msg) \<longrightarrow>
      resourceSiteRead meta d w =
        ((Some e, d), \<lparr>remote = r1, calls = calls w @ [GetSiteCall (Id' d)]\<rparr>)) \<and>
   (UpdateSite (Netlify meta) (Id' d) (resourceSite_setupStruct d) (AuthInfo meta) (remote w) = (Inl e, r1) \<longrightarrow>
      resourceSiteUpdate meta d w =
        ((Some e, d),
         \<lparr>remote = r1, calls = calls w @ [UpdateSiteCall (Id' d) (resourceSite_setupStruct d)]\<rparr>)) \<and>
   (DeleteSite (Netlify meta) (Id' d) (AuthInfo meta) (remote w) = (Inl e, r1) \<longrightarrow>
      resourceSiteDelete meta d w =
        ((Some e, d), \<lparr>remote = r1, calls = calls w @ [DeleteSiteCall (Id' d)]\<rparr>)) \<and>
   (account_slug d \<noteq> [] \<longrightarrow>
    CreateSiteInTeam (Netlify meta) (account_slug d) (resourceSite_setupStruct d) (AuthInfo meta) (remote w) = (Inr site, r1) \<longrightarrow>
    GetSite (Netlify meta) (ID site) (AuthInfo meta) r1 = (Inl e, r2) \<longrightarrow>
    (\<forall>msg. e \<noteq> GetSiteDefault 404 msg) \<longrightarrow>
      resourceSiteCreate meta d w =
        ((Some e, d\<lparr>Id' := ID site\<rparr>),
         \<lparr>remote = r2,
          calls = calls w @ [CreateSiteInTeamCall (account_slug d) (resourceSite_setupStruct d),
                             GetSiteCall (ID site)]\<rparr>)) \<and>
   (account_slug d = [] \<longrightarrow>
    CreateSite (Netlify meta) (resourceSite_setupStruct d) (AuthInfo meta) (remote w) = (Inr site, r1) \<longrightarrow>
    GetSite (Netlify meta) (ID site) (AuthInfo meta) r1 = (Inl e, r2) \<longrightarrow>
    (\<forall>msg. e \<noteq> GetSiteDefault 404 msg) \<longrightarrow>
      resourceSiteCreate meta d w =
        ((Some e, d\<lparr>Id' := ID site\<rparr>),
         \<lparr>remote = r2,
          calls = calls w @ [CreateSiteCall (resourceSite_setupStruct d), GetSiteCall (ID site)]\<rparr>)) \<and>
   (UpdateSite (Netlify meta) (Id' d) (resourceSite_setupStruct d) (AuthInfo meta) (remote w) = (Inr site, r1) \<longrightarrow>
    GetSite (Netlify meta) (Id' d) (AuthInfo meta) r1 = (Inl e, r2) \<longrightarrow>
    (\<forall>msg. e \<noteq> GetSiteDefault 404 msg) \<longrightarrow>
      resourceSiteUpdate meta d w =
        ((Some e, d),
         \<lparr>remote = r2,
          calls = calls w @ [UpdateSiteCall (Id' d) (resourceSite_setupStruct d), GetSiteCall (Id' d)]\<rparr>))"
proof (intro conjI impI)
  assume "account_slug d \<noteq> []"
    and "CreateSiteInTeam (Netlify meta) (account_slug d) (resourceSite_setupStruct d) (AuthInfo meta) (remote w) = (Inl e, r1)"
  then show "resourceSiteCreate meta d w =
        ((Some e, d),
         \<lparr>remote = r1, calls = calls w @ [CreateSiteInTeamCall (account_slug d) (resourceSite_setupStruct d)]\<rparr>)"
    by (rule create_team_fail)
next
  assume "account_slug d = []"
    and "CreateSite (Netlify meta) (resourceSite_setupStruct d) (AuthInfo meta) (remote w) = (Inl e, r1)"
  then show "resourceSiteCreate meta d w =
        ((Some e, d), \<lparr>remote = r1, calls = calls w @ [CreateSiteCall (resourceSite_setupStruct d)]\<rparr>)"
    by (rule create_default_fail)
next
  assume "GetSite (Netlify meta) (Id' d) (AuthInfo meta) (remote w) = (Inl e, r1)"
    and "\<forall>msg. e \<noteq> GetSiteDefault 404 msg"
  then show "resourceSiteRead meta d w =
        ((Some e, d), \<lparr>remote = r1, calls = calls w @ [GetSiteCall (Id' d)]\<rparr>)"
    by (rule read_fail)
next
  assume "UpdateSite (Netlify meta) (Id' d) (resourceSite_setupStruct d) (AuthInfo meta) (remote w) = (Inl e, r1)"
  then show "resourceSiteUpdate meta d w =
        ((Some e, d),
         \<lparr>remote = r1, calls = calls w @ [UpdateSiteCall (Id' d) (resourceSite_setupStruct d)]\<rparr>)"
    by (rule update_fail)
next
  assume "DeleteSite (Netlify meta) (Id' d) (AuthInfo meta) (remote w) = (Inl e, r1)"
  then show "resourceSiteDelete meta d w =
        ((Some e, d), \<lparr>remote = r1, calls = calls w @ [DeleteSiteCall (Id' d)]\<rparr>)"
    by (rule delete_fail)
next
  assume s: "account_slug d \<noteq> []"
    and c: "CreateSiteInTeam (Netlify meta) (account_slug d) (resourceSite_setupStruct d) (AuthInfo meta) (remote w) = (Inr site, r1)"
    and g: "GetSite (Netlify meta) (ID site) (AuthInfo meta) r1 = (Inl e, r2)"
    and n: "\<forall>msg. e \<noteq> GetSiteDefault 404 msg"
  show "resourceSiteCreate meta d w =
        ((Some e, d\<lparr>Id' := ID site\<rparr>),
         \<lparr>remote = r2,
          calls = calls w @ [CreateSiteInTeamCall (account_slug d) (resourceSite_setupStruct d),
                             GetSiteCall (ID site)]\<rparr>)"
    using g n by (simp add: create_team_ok [OF s c] read_fail)
next
  assume s: "account_slug d = []"
    and c: "CreateSite (Netlify meta) (resourceSite_setupStruct d) (AuthInfo meta) (remote w) = (Inr site, r1)"
    and g: "GetSite (Netlify meta) (ID site) (AuthInfo meta) r1 = (Inl e, r2)"
    and n: "\<forall>msg. e \<noteq> GetSiteDefault 404 msg"
  show "resourceSiteCreate meta d w =
        ((Some e, d\<lparr>Id' := ID site\<rparr>),
         \<lparr>remote = r2,
          calls = calls w @ [CreateSiteCall (resourceSite_setupStruct d), GetSiteCall (ID site)]\<rparr>)"
    using g n by (simp add: create_default_ok [OF s c] read_fail)
next
  assume c: "UpdateSite (Netlify meta) (Id' d) (resourceSite_setupStruct d) (AuthInfo meta) (remote w) = (Inr site, r1)"
    and g: "GetSite (Netlify meta) (Id' d) (AuthInfo meta) r1 = (Inl e, r2)"
    and n: "\<forall>msg. e \<noteq> GetSiteDefault 404 msg"
  show "resourceSiteUpdate meta d w =
        ((Some e, d),
         \<lparr>remote = r2,
          calls = calls w @ [UpdateSiteCall (Id' d) (resourceSite_setupStruct d), GetSiteCall (Id' d)]\<rparr>)"
    using g n by (simp add: update_ok [OF c] read_fail)
qed

text \<open>
  The theorem at a client where every call fails and at one where only get-site fails,
  for a declared site with a team, a declared site without one and a tracked site.
\<close>

theorem failures_propagated_unmodified_witness:
  "resourceSiteCreate all_down new_team_site fresh =
     ((Some unavailable, new_team_site),
      \<lparr>remote = Suc 0, calls = [CreateSiteInTeamCall ''team-x'' (resourceSite_setupStruct new_team_site)]\<rparr>) \<and>
   resourceSiteCreate all_down new_plain_site fresh =
     ((Some unavailable, new_plain_site),
      \<lparr>remote = Suc 0, calls = [CreateSiteCall (resourceSite_setupStruct new_plain_site)]\<rparr>) \<and>
   resourceSiteRead all_down team_site fresh =
     ((Some unavailable, team_site), \<lparr>remote = Suc 0, calls = [GetSiteCall ''s1'']\<rparr>) \<and>
   resourceSiteUpdate all_down team_site fresh =
     ((Some unavailable, team_site),
      \<lparr>remote = Suc 0, calls = [UpdateSiteCall ''s1'' (resourceSite_setupStruct team_site)]\<rparr>) \<and>
   resourceSiteDelete all_down team_site fresh =
     ((Some unavailable, team_site), \<lparr>remote = Suc 0, calls = [DeleteSiteCall ''s1'']\<rparr>) \<and>
   resourceSiteCreate reads_down new_team_site fresh =
     ((Some unavailable, new_team_site\<lparr>Id' := ''s9''\<rparr>),
      \<lparr>remote = Suc (Suc 0),
       calls = [CreateSiteInTeamCall ''team-x'' (resourceSite_setupStruct new_team_site),
                GetSiteCall ''s9'']\<rparr>) \<and>
   resourceSiteCreate reads_down new_plain_site fresh =
     ((Some unavailable, new_plain_site\<lparr>Id' := ''s9''\<rparr>),
      \<lparr>remote = Suc (Suc 0),
       calls = [CreateSiteCall (resourceSite_setupStruct new_plain_site), GetSiteCall ''s9'']\<rparr>) \<and>
   resourceSiteUpdate reads_down team_site fresh =
     ((Some unavailable, team_site),
      \<lparr>remote = Suc (Suc 0),
       calls = [UpdateSiteCall ''s1'' (resourceSite_setupStruct team_site), GetSiteCall ''s1'']\<rparr>)"
proof -
  have d: "account_slug new_team_site = ''team-x''" "account_slug new_plain_site = []"
    "Id' team_site = ''s1''" "ID remote_site = ''s9''"
    by (simp_all add: new_team_site_def new_plain_site_def team_site_def plain_site_def
          remote_site_def)
  have w: "remote fresh = 0" "calls fresh = []"
    by (simp_all add: fresh_def)
  have e: "\<forall>msg. unavailable \<noteq> GetSiteDefault 404 msg"
    by (simp add: unavailable_def)
  have down: "CreateSiteInTeam (Netlify all_down) s p a r = (Inl unavailable, Suc r)"
    "CreateSite (Netlify all_down) p a r = (Inl unavailable, Suc r)"
    "GetSite (Netlify all_down) s a r = (Inl unavailable, Suc r)"
    "UpdateSite (Netlify all_down) s p a r = (Inl unavailable, Suc r)"
    "DeleteSite (Netlify all_down) s a r = (Inl unavailable, Suc r)"
    for s p a r
    by (simp_all add: all_down_def canned_def)
  have rd: "CreateSiteInTeam (Netlify reads_down) s p a r = (Inr remote_site, Suc r)"
    "CreateSite (Netlify reads_down) p a r = (Inr remote_site, Suc r)"
    "GetSite (Netlify reads_down) s a r = (Inl unavailable, Suc r)"
    "UpdateSite (Netlify reads_down) s p a r = (Inr remote_site, Suc r)"
    for s p a r
    by (simp_all add: reads_down_def canned_def)
  show ?thesis
    using failures_propagated_unmodified
        [of new_team_site all_down fresh unavailable "Suc 0" remote_site "Suc (Suc 0)"]
      failures_propagated_unmodified
        [of new_plain_site all_down fresh unavailable "Suc 0" remote_site "Suc (Suc 0)"]
      failures_propagated_unmodified
        [of team_site all_down fresh unavailable "Suc 0" remote_site "Suc (Suc 0)"]
      failures_propagated_unmodified
        [of new_team_site reads_down fresh unavailable "Suc 0" remote_site "Suc (Suc 0)"]
      failures_propagated_unmodified
        [of new_plain_site reads_down fresh unavailable "Suc 0" remote_site "Suc (Suc 0)"]
      failures_propagated_unmodified
        [of team_site reads_down fresh unavailable "Suc 0" remote_site "Suc (Suc 0)"]
    by (simp add: d w e down rd)
qed

end
